theory Spec2Isabelle
  imports Main "HOL-Library.List_Lexorder" "HOL-Library.Char_ord" "HOL-Library.AList"
begin

section \<open>Package request: building an HTTP request from a template\<close>

text \<open>
  The embedding follows \<^verbatim>\<open>src/request/request.go\<close>. Go strings and byte slices are
  \<^typ>\<open>string\<close> (lists of bytes). A Go map that the code iterates over
  (\<^verbatim>\<open>Header.Header\<close>, \<^verbatim>\<open>Header.Remove\<close>, \<^verbatim>\<open>DefaultHeader\<close>) is an association list:
  the list is the map together with one iteration order, and Go leaves that order open,
  so statements are made for every list. A map that is only read and written by key (the
  target \<^verbatim>\<open>http.Header\<close>) is a partial function.
\<close>

subsection \<open>Standard library: canonical header keys and \<^verbatim>\<open>http.Header\<close>\<close>

definition validHeaderFieldByte :: "char \<Rightarrow> bool" where
  "validHeaderFieldByte c =
     ((CHR ''a'' \<le> c \<and> c \<le> CHR ''z'') \<or> (CHR ''A'' \<le> c \<and> c \<le> CHR ''Z'') \<or>
      (CHR ''0'' \<le> c \<and> c \<le> CHR ''9'') \<or>
      c \<in> set (''!#$%&*+-.^_|~'' @ [CHR 0x27, CHR 0x60]))"

definition toLower :: nat where
  "toLower = 32"

text \<open>The loop of \<^verbatim>\<open>textproto.canonicalMIMEHeaderKey\<close>: upper case for the first letter
  and after each dash, lower case elsewhere.\<close>

fun canonicalLoop :: "bool \<Rightarrow> string \<Rightarrow> string" where
  "canonicalLoop upper [] = []"
| "canonicalLoop upper (c # cs) =
     (let c' = (if upper \<and> CHR ''a'' \<le> c \<and> c \<le> CHR ''z''
                  then char_of (of_char c - toLower)
                else if \<not> upper \<and> CHR ''A'' \<le> c \<and> c \<le> CHR ''Z''
                  then char_of (of_char c + toLower)
                else c)
      in c' # canonicalLoop (c' = CHR ''-'') cs)"

text \<open>\<^verbatim>\<open>textproto.CanonicalMIMEHeaderKey\<close>: a key with a byte that is not a header field
  byte (a space included) is returned as it is.\<close>

definition CanonicalMIMEHeaderKey :: "string \<Rightarrow> string" where
  "CanonicalMIMEHeaderKey s =
     (if list_all validHeaderFieldByte s then canonicalLoop True s else s)"

type_synonym http_Header = "string \<rightharpoonup> string list"

text \<open>\<^verbatim>\<open>http.Header.Del\<close>, \<^verbatim>\<open>Add\<close> and \<^verbatim>\<open>Set\<close> work on the canonical key.\<close>

definition Del :: "http_Header \<Rightarrow> string \<Rightarrow> http_Header" where
  "Del hdr k = hdr(CanonicalMIMEHeaderKey k := None)"

definition Add :: "http_Header \<Rightarrow> string \<Rightarrow> string \<Rightarrow> http_Header" where
  "Add hdr k v =
     (let key = CanonicalMIMEHeaderKey k
      in hdr(key \<mapsto> (case hdr key of None \<Rightarrow> [] | Some vs \<Rightarrow> vs) @ [v]))"

definition Set_hdr :: "http_Header \<Rightarrow> string \<Rightarrow> string \<Rightarrow> http_Header" where
  "Set_hdr hdr k v = hdr(CanonicalMIMEHeaderKey k \<mapsto> [v])"

subsection \<open>The type \<^verbatim>\<open>Header\<close>\<close>

text \<open>\<^verbatim>\<open>type Header struct { Header http.Header; Remove map[string]struct{} }\<close>.
  Both fields are Go maps, that is references: a method with a value receiver can still
  change them, so the methods below return the header set they leave behind.\<close>

record Header =
  h_Header :: "(string \<times> string list) list"
  h_Remove :: "string list"

definition DefaultHeader :: "(string \<times> string list) list" where
  "DefaultHeader = [(''Accept'', [''*/*'']), (''User-Agent'', [''monsoon''])]"

definition NewHeader :: "(string \<times> string list) list \<Rightarrow> Header" where
  "NewHeader defaults = \<lparr>h_Header = defaults, h_Remove = []\<rparr>"

text \<open>\<^verbatim>\<open>headerDefaultValue\<close>: both lookups use the canonical key; the two slices are
  copied, sorted and compared element by element.\<close>

definition headerDefaultValue :: "Header \<Rightarrow> string \<Rightarrow> bool" where
  "headerDefaultValue h name =
     (let key = CanonicalMIMEHeaderKey name in
      case map_of (h_Header h) key of
        None \<Rightarrow> False
      | Some v \<Rightarrow>
          (case map_of DefaultHeader key of
             None \<Rightarrow> False
           | Some def \<Rightarrow>
               if length v \<noteq> length def then False
               else sort v = sort def))"

text \<open>\<^verbatim>\<open>strings.SplitN(s, ":", 2)\<close>.\<close>

definition SplitN2 :: "string \<Rightarrow> string list" where
  "SplitN2 s =
     (if CHR '':'' \<in> set s
      then [takeWhile (\<lambda>c. c \<noteq> CHR '':'') s, tl (dropWhile (\<lambda>c. c \<noteq> CHR '':'') s)]
      else [s])"

text \<open>\<^verbatim>\<open>Header.Set\<close>. The result is the header set after the call and the returned
  error (always \<^verbatim>\<open>nil\<close>). \<^verbatim>\<open>SplitN\<close> returns one or two parts, so the last case is never
  reached.\<close>

definition Header_Set :: "Header \<Rightarrow> string \<Rightarrow> Header \<times> string option" where
  "Header_Set h s =
     (case SplitN2 s of
        [name] \<Rightarrow> (h\<lparr>h_Remove := List.insert name (h_Remove h)\<rparr>, None)
      | name # val # _ \<Rightarrow>
          (let hdr1 = (if headerDefaultValue h name
                       then AList.delete name (h_Header h) else h_Header h);
               val' = (if length val > 0 \<and> hd val = CHR '' '' then tl val else val);
               old = (case map_of hdr1 name of None \<Rightarrow> [] | Some vs \<Rightarrow> vs)
           in (h\<lparr>h_Header := AList.update name (old @ [val']) hdr1\<rparr>, None))
      | [] \<Rightarrow> (h, None))"

text \<open>\<^verbatim>\<open>Header.Apply\<close>. One round of the first loop: the presence test reads the
  target at the literal key, the default test and \<^verbatim>\<open>Del\<close> use the key as stored, and
  \<^verbatim>\<open>Add\<close> uses the key after substitution.\<close>

definition Header_Apply_entry ::
    "Header \<Rightarrow> (string \<Rightarrow> string) \<Rightarrow> string \<times> string list \<Rightarrow> http_Header \<Rightarrow> http_Header" where
  "Header_Apply_entry h insertValue e hdr =
     (case e of (k, vs) \<Rightarrow>
        if hdr k \<noteq> None \<and> headerDefaultValue h k then hdr
        else fold (\<lambda>v t. Add t (insertValue k) (insertValue v)) vs (Del hdr k))"

definition Header_Apply ::
    "Header \<Rightarrow> http_Header \<Rightarrow> (string \<Rightarrow> string) \<Rightarrow> Header \<times> http_Header" where
  "Header_Apply h hdr insertValue =
     (h, fold (\<lambda>k t. Del t k) (h_Remove h)
           (fold (Header_Apply_entry h insertValue) (h_Header h) hdr))"

subsection \<open>Requests, URLs and the standard library calls of \<^verbatim>\<open>Apply\<close>\<close>

text \<open>\<^verbatim>\<open>url.Userinfo\<close> and the fields of \<^verbatim>\<open>url.URL\<close> that the code reads or writes.\<close>

record Userinfo =
  username :: string
  password :: string
  passwordSet :: bool

record URL =
  u_Scheme :: string
  u_User :: "Userinfo option"
  u_Host :: string
  u_Path :: string
  u_RawQuery :: string

text \<open>\<^verbatim>\<open>http.Request\<close>: the body is the byte sequence its reader yields; the content
  length is an \<^verbatim>\<open>int64\<close> (a slice length always fits).\<close>

record http_Request =
  req_Method :: string
  req_URL :: URL
  req_Header :: http_Header
  req_Body :: string
  req_ContentLength :: int
  req_Host :: string

text \<open>Errors of the standard library; \<^verbatim>\<open>io.EOF\<close> and \<^verbatim>\<open>io.ErrUnexpectedEOF\<close> are
  the two the code compares with.\<close>

datatype go_error = EOF | ErrUnexpectedEOF | OtherError string

text \<open>What \<^verbatim>\<open>Apply\<close> returns as an error: an error of a library call passed on, the
  wrapped error of \<^verbatim>\<open>http.ReadRequest\<close> (with the file name), the errors created with
  \<^verbatim>\<open>errors.New\<close>, and the run-time panic of an index out of range.\<close>

datatype error =
    Err go_error
  | ErrReadRequest string go_error
  | ErrURLPath
  | ErrURLQuery
  | ErrHostRemoval
  | Panic

text \<open>What reading the template file gives: the request returned by
  \<^verbatim>\<open>http.ReadRequest(rd)\<close>, then the result of \<^verbatim>\<open>ioutil.ReadAll(rd)\<close>, then the result of
  \<^verbatim>\<open>ioutil.ReadAll(req.Body)\<close>, in the order in which the code makes the three calls.\<close>

record reading =
  rd_req :: http_Request
  rd_rest :: "string \<times> go_error option"
  rd_body :: "string \<times> go_error option"

text \<open>The calls into the Go standard library are parameters of the model.\<close>

record stdlib =
  strings_Contains :: "string \<Rightarrow> string \<Rightarrow> bool"
  strings_Replace :: "string \<Rightarrow> string \<Rightarrow> string \<Rightarrow> string"
  bytes_Replace :: "string \<Rightarrow> string \<Rightarrow> string \<Rightarrow> string"
  ReadFile :: "string \<Rightarrow> go_error + string"
  ReadRequest :: "string \<Rightarrow> go_error + reading"
  url_Parse :: "string \<Rightarrow> go_error + URL"
  NewRequest :: "string \<Rightarrow> string \<Rightarrow> string \<Rightarrow> go_error + http_Request"
  basicAuth :: "string \<Rightarrow> string \<Rightarrow> string"

text \<open>\<^verbatim>\<open>(*http.Request).SetBasicAuth\<close>.\<close>

definition SetBasicAuth :: "stdlib \<Rightarrow> http_Request \<Rightarrow> string \<Rightarrow> string \<Rightarrow> http_Request" where
  "SetBasicAuth lib req u p =
     req\<lparr>req_Header := Set_hdr (req_Header req) ''Authorization'' (''Basic '' @ basicAuth lib u p)\<rparr>"

subsection \<open>The type \<^verbatim>\<open>Request\<close> and \<^verbatim>\<open>Apply\<close>\<close>

record Request =
  r_URL :: string
  r_Method :: string
  r_Header :: Header
  r_Body :: string
  r_TemplateFile :: string
  r_ForceChunkedEncoding :: bool

definition New :: Request where
  "New = \<lparr>r_URL = [], r_Method = [], r_Header = NewHeader DefaultHeader, r_Body = [],
          r_TemplateFile = [], r_ForceChunkedEncoding = False\<rparr>"

definition replaceTemplate :: "stdlib \<Rightarrow> string \<Rightarrow> string \<Rightarrow> string \<Rightarrow> string" where
  "replaceTemplate lib s template value =
     (if \<not> strings_Contains lib s template then s else strings_Replace lib s template value)"

text \<open>Lines 209 to 244: read the file, substitute, parse, read the rest of the stream,
  read the body, and rebuild the body from the two.\<close>

definition readTemplateFile :: "stdlib \<Rightarrow> Request \<Rightarrow> string \<Rightarrow> string \<Rightarrow> error + http_Request" where
  "readTemplateFile lib r template value =
     (case ReadFile lib (r_TemplateFile r) of
        Inl err \<Rightarrow> Inl (Err err)
      | Inr buf \<Rightarrow>
          (case ReadRequest lib (bytes_Replace lib buf template value) of
             Inl err \<Rightarrow> Inl (ErrReadRequest (r_TemplateFile r) err)
           | Inr rd \<Rightarrow>
               (case rd_rest rd of (rest, err) \<Rightarrow>
                  (case (if err = Some EOF then None else err) of
                     Some e \<Rightarrow> Inl (Err e)
                   | None \<Rightarrow>
                       (case rd_body rd of (origBody, err) \<Rightarrow>
                          (case (if err = Some ErrUnexpectedEOF then None else err) of
                             Some e \<Rightarrow> Inl (Err e)
                           | None \<Rightarrow>
                               (let origBody = origBody @ rest
                                in Inr ((rd_req rd)\<lparr>req_Body := origBody,
                                      req_ContentLength := int (length origBody)\<rparr>))))))))"

text \<open>Lines 246 to 279: the URL field is parsed and checked, scheme, host and user are
  copied, and the body and method fields override what the file gave.\<close>

definition fillFromFields ::
    "stdlib \<Rightarrow> Request \<Rightarrow> (string \<Rightarrow> string) \<Rightarrow> string \<Rightarrow> string \<Rightarrow> http_Request
       \<Rightarrow> error + http_Request" where
  "fillFromFields lib r insertValue targetURL body req =
     (case url_Parse lib targetURL of
        Inl err \<Rightarrow> Inl (Err err)
      | Inr u \<Rightarrow>
          if u_Path u \<noteq> [] \<and> u_Path u \<noteq> ''/'' then Inl ErrURLPath
          else if u_RawQuery u \<noteq> [] then Inl ErrURLQuery
          else
            (let req1 = req\<lparr>req_URL := (req_URL req)\<lparr>u_Scheme := u_Scheme u, u_Host := u_Host u\<rparr>\<rparr>;
                 req2 = (if u_User u \<noteq> None
                         then req1\<lparr>req_URL := (req_URL req1)\<lparr>u_User := u_User u\<rparr>\<rparr> else req1);
                 req3 = (if length body > 0
                         then req2\<lparr>req_Body := body, req_ContentLength := int (length body)\<rparr>
                         else req2);
                 req4 = (if r_Method r \<noteq> []
                         then req3\<lparr>req_Method := insertValue (r_Method r)\<rparr> else req3)
             in Inr req4))"

text \<open>Lines 202 to 293: the request of either path, with the content length of a forced
  chunked encoding.\<close>

definition buildRequest :: "stdlib \<Rightarrow> Request \<Rightarrow> string \<Rightarrow> string \<Rightarrow> error + http_Request" where
  "buildRequest lib r template value =
     (let insertValue = (\<lambda>s. replaceTemplate lib s template value);
          targetURL = insertValue (r_URL r);
          body = insertValue (r_Body r);
          res = (if r_TemplateFile r \<noteq> []
                 then (case readTemplateFile lib r template value of
                         Inl e \<Rightarrow> Inl e
                       | Inr req \<Rightarrow> fillFromFields lib r insertValue targetURL body req)
                 else (case NewRequest lib (insertValue (r_Method r)) targetURL body of
                         Inl err \<Rightarrow> Inl (Err err)
                       | Inr req \<Rightarrow> Inr req))
      in case res of
           Inl e \<Rightarrow> Inl e
         | Inr req \<Rightarrow>
             Inr (if r_ForceChunkedEncoding r then req\<lparr>req_ContentLength := - 1\<rparr> else req))"

text \<open>Lines 311 to 315: the loop over the stored headers that sets the field
  \<^verbatim>\<open>Host\<close>; \<^verbatim>\<open>v[0]\<close> of an empty slice panics.\<close>

fun hostLoop :: "(string \<times> string list) list \<Rightarrow> http_Request \<Rightarrow> error + http_Request" where
  "hostLoop [] req = Inr req"
| "hostLoop ((k, v) # es) req =
     (if CanonicalMIMEHeaderKey k = ''Host''
      then (case v of [] \<Rightarrow> Inl Panic | v0 # _ \<Rightarrow> hostLoop es (req\<lparr>req_Host := v0\<rparr>))
      else hostLoop es req)"

text \<open>Lines 317 to 335: the loop over the names to remove.\<close>

fun removeLoop :: "string list \<Rightarrow> http_Request \<Rightarrow> error + http_Request" where
  "removeLoop [] req = Inr req"
| "removeLoop (k # ks) req =
     (let name = CanonicalMIMEHeaderKey k;
          req1 = (if name = ''User-Agent''
                  then req\<lparr>req_Header := Set_hdr (req_Header req) ''User-Agent'' []\<rparr> else req)
      in if name = ''Host'' then Inl ErrHostRemoval else removeLoop ks req1)"

text \<open>Lines 295 to 304: basic authentication from the user information of the URL, and
  the path \<^verbatim>\<open>/\<close> for an empty one.\<close>

definition authAndPath :: "stdlib \<Rightarrow> http_Request \<Rightarrow> http_Request" where
  "authAndPath lib req =
     (let req1 = (case u_User (req_URL req) of
                    None \<Rightarrow> req
                  | Some ui \<Rightarrow> SetBasicAuth lib req (username ui) (password ui))
      in if u_Path (req_URL req1) = []
         then req1\<lparr>req_URL := (req_URL req1)\<lparr>u_Path := ''/''\<rparr>\<rparr> else req1)"

text \<open>Lines 295 to 337, on the request built so far. The template's header set is
  handed to \<^verbatim>\<open>Header.Apply\<close> and comes back with the result. Go orders each \<^verbatim>\<open>range\<close>
  over a map on its own; here the loop of \<^verbatim>\<open>Header.Apply\<close> and the loop for the field
  \<^verbatim>\<open>Host\<close> visit the stored headers in the same order, and no property below depends on
  the order of more than one of the two.\<close>

definition finishRequest ::
    "stdlib \<Rightarrow> Header \<Rightarrow> (string \<Rightarrow> string) \<Rightarrow> http_Request \<Rightarrow> Header \<times> (error + http_Request)" where
  "finishRequest lib h insertValue req =
     (let req2 = authAndPath lib req
      in case Header_Apply h (req_Header req2) insertValue of
           (h', hdr) \<Rightarrow>
             (h', case hostLoop (h_Header h') (req2\<lparr>req_Header := hdr\<rparr>) of
                    Inl e \<Rightarrow> Inl e
                  | Inr req3 \<Rightarrow> removeLoop (h_Remove h') req3))"

text \<open>\<^verbatim>\<open>(*Request).Apply\<close>: the template after the call, and the request or the error.\<close>

definition Apply :: "stdlib \<Rightarrow> Request \<Rightarrow> string \<Rightarrow> string \<Rightarrow> Request \<times> (error + http_Request)" where
  "Apply lib r template value =
     (case buildRequest lib r template value of
        Inl e \<Rightarrow> (r, Inl e)
      | Inr req \<Rightarrow>
          (case finishRequest lib (r_Header r) (\<lambda>s. replaceTemplate lib s template value) req of
             (h', res) \<Rightarrow> (r\<lparr>r_Header := h'\<rparr>, res)))"

subsection \<open>The standard library at the inputs of the examples\<close>

text \<open>The closed examples below run \<^const>\<open>Apply\<close> on one instance of the library
  parameters. It gives \<^verbatim>\<open>strings.Contains\<close> and \<^verbatim>\<open>strings.Replace\<close> (with \<^verbatim>\<open>n = -1\<close>)
  for a non-empty placeholder, and tabulates the other calls at the inputs the examples
  use: the results are those of the Go library at these inputs.\<close>

fun Contains :: "string \<Rightarrow> string \<Rightarrow> bool" where
  "Contains [] t = (t = [])"
| "Contains (c # cs) t = (take (length t) (c # cs) = t \<or> Contains cs t)"

fun replaceFrom :: "nat \<Rightarrow> string \<Rightarrow> string \<Rightarrow> string \<Rightarrow> string" where
  "replaceFrom skip [] old new = []"
| "replaceFrom (Suc skip) (c # cs) old new = replaceFrom skip cs old new"
| "replaceFrom 0 (c # cs) old new =
     (if old \<noteq> [] \<and> take (length old) (c # cs) = old
      then new @ replaceFrom (length old - 1) cs old new
      else c # replaceFrom 0 cs old new)"

definition Replace :: "string \<Rightarrow> string \<Rightarrow> string \<Rightarrow> string" where
  "Replace s old new = replaceFrom 0 s old new"

definition CRLF :: string where
  "CRLF = [CHR 0x0D, CHR 0x0A]"

definition example_file :: string where
  "example_file = ''POST /FUZZ HTTP/1.1'' @ CRLF @ ''Host: example.com'' @ CRLF @
     ''Content-Length: 3'' @ CRLF @ CRLF @ ''abc''"

text \<open>\<^verbatim>\<open>http.ReadRequest\<close> on the file with \<^verbatim>\<open>FUZZ\<close> replaced by \<^verbatim>\<open>x\<close>: the body reader
  is a limited reader on \<^verbatim>\<open>rd\<close>; \<^verbatim>\<open>ioutil.ReadAll(rd)\<close> takes the three body bytes, and
  the body reader then finds the stream empty.\<close>

definition example_reading :: reading where
  "example_reading =
     \<lparr>rd_req = \<lparr>req_Method = ''POST'',
                req_URL = \<lparr>u_Scheme = [], u_User = None, u_Host = [], u_Path = ''/x'',
                           u_RawQuery = []\<rparr>,
                req_Header = [''Content-Length'' \<mapsto> [''3'']],
                req_Body = [], req_ContentLength = 3, req_Host = ''example.com''\<rparr>,
      rd_rest = (''abc'', None),
      rd_body = ([], Some ErrUnexpectedEOF)\<rparr>"

definition example_url_Parse :: "string \<Rightarrow> go_error + URL" where
  "example_url_Parse s =
     (if s = ''http://example.com/'' then
        Inr \<lparr>u_Scheme = ''http'', u_User = None, u_Host = ''example.com'', u_Path = ''/'',
             u_RawQuery = []\<rparr>
      else if s = ''http://user:pw@example.com/'' then
        Inr \<lparr>u_Scheme = ''http'',
             u_User = Some \<lparr>username = ''user'', password = ''pw'', passwordSet = True\<rparr>,
             u_Host = ''example.com'', u_Path = ''/'', u_RawQuery = []\<rparr>
      else if s = ''https://example.com'' then
        Inr \<lparr>u_Scheme = ''https'', u_User = None, u_Host = ''example.com'', u_Path = [],
             u_RawQuery = []\<rparr>
      else if s = ''https://example.com/somepath'' then
        Inr \<lparr>u_Scheme = ''https'', u_User = None, u_Host = ''example.com'',
             u_Path = ''/somepath'', u_RawQuery = []\<rparr>
      else Inl (OtherError ''not tabulated''))"

text \<open>\<^verbatim>\<open>http.NewRequest\<close> for a valid method and a host without an empty port.\<close>

definition example_NewRequest :: "string \<Rightarrow> string \<Rightarrow> string \<Rightarrow> go_error + http_Request" where
  "example_NewRequest method url body =
     (case example_url_Parse url of
        Inl e \<Rightarrow> Inl e
      | Inr u \<Rightarrow>
          Inr \<lparr>req_Method = (if method = [] then ''GET'' else method), req_URL = u,
               req_Header = Map.empty, req_Body = body,
               req_ContentLength = int (length body), req_Host = u_Host u\<rparr>)"

definition example_lib :: stdlib where
  "example_lib =
     \<lparr>strings_Contains = Contains,
      strings_Replace = Replace,
      bytes_Replace = Replace,
      ReadFile = (\<lambda>p. if p = ''request.txt'' then Inr example_file
                     else Inl (OtherError ''no such file or directory'')),
      ReadRequest = (\<lambda>buf. if buf = Replace example_file ''FUZZ'' ''x'' then Inr example_reading
                          else Inl (OtherError ''malformed HTTP request'')),
      url_Parse = example_url_Parse,
      NewRequest = example_NewRequest,
      basicAuth = (\<lambda>u p. if u = ''user'' \<and> p = ''pw'' then ''dXNlcjpwdw=='' else [])\<rparr>"

text \<open>Two templates for the examples: one built from its fields, one from the template
  file.\<close>

definition example_fields :: Request where
  "example_fields = New\<lparr>r_URL := ''http://example.com/'', r_Method := ''GET''\<rparr>"

definition example_from_file :: Request where
  "example_from_file = New\<lparr>r_URL := ''https://example.com'', r_TemplateFile := ''request.txt''\<rparr>"

section \<open>Properties\<close>

subsection \<open>The template is left as it was\<close>

text \<open>
  Claim C9. \<^verbatim>\<open>Apply\<close> never changes the template: whatever the placeholder and the
  value, and whether a request or an error comes back, the template after the call (URL,
  method, body, template file, chunked flag, and the header set with its values and
  removals) is the template before the call. \<^verbatim>\<open>Header.Apply\<close> likewise leaves the header
  set as it was; what it changes is the target it returns.
\<close>

theorem Apply_leaves_template_unchanged:
  "fst (Apply lib r template value) = r \<and> fst (Header_Apply h hdr insertValue) = h"
proof -
  have h: "fst (Header_Apply h hdr insertValue) = h" for h hdr insertValue
    by (simp add: Header_Apply_def)
  have f: "fst (finishRequest lib h insertValue req) = h" for h insertValue req
    by (simp add: finishRequest_def Let_def Header_Apply_def)
  have "fst (Apply lib r template value) = r"
  proof (cases "buildRequest lib r template value")
    case (Inl e)
    then show ?thesis by (simp add: Apply_def)
  next
    case (Inr req)
    then show ?thesis
      using f [of "r_Header r" "\<lambda>s. replaceTemplate lib s template value" req]
      by (auto simp: Apply_def split: prod.splits)
  qed
  with h show ?thesis by simp
qed

subsection \<open>Directives\<close>

text \<open>
  Claim C6. A directive \<^verbatim>\<open>name: value\<close> is to discard only a stored default and then
  append, so that repeated directives for one name accumulate. The code tests the
  default under the canonical name and deletes under the literal name: on a fresh header
  set, the directive \<^verbatim>\<open>accept: a\<close> followed by \<^verbatim>\<open>accept: b\<close> leaves only \<^verbatim>\<open>b\<close> stored
  under \<^verbatim>\<open>accept\<close>; the explicit value \<^verbatim>\<open>a\<close>, which is no default, is gone.
\<close>

theorem Header_Set_drops_explicit_value:
  "map_of (h_Header (fst (Header_Set (fst (Header_Set (NewHeader DefaultHeader) ''accept: a''))
      ''accept: b''))) ''accept'' = Some [''b'']"
  by code_simp

subsection \<open>The Host header\<close>

text \<open>
  Claim C7. With the directive \<^verbatim>\<open>Host: FUZZ.example.com\<close>, the placeholder \<^verbatim>\<open>FUZZ\<close> and
  the value \<^verbatim>\<open>admin\<close>, the request is produced, its header collection carries the
  substituted value \<^verbatim>\<open>admin.example.com\<close> under \<^verbatim>\<open>Host\<close>, and its field \<^verbatim>\<open>Host\<close> is the
  stored value without substitution, \<^verbatim>\<open>FUZZ.example.com\<close>.
\<close>

theorem Apply_Host_field_not_substituted:
  "\<not> isl (snd (Apply example_lib
       (New\<lparr>r_URL := ''http://example.com/'', r_Method := ''GET'',
            r_Header := fst (Header_Set (NewHeader DefaultHeader) ''Host: FUZZ.example.com'')\<rparr>)
       ''FUZZ'' ''admin'')) \<and>
   req_Host (projr (snd (Apply example_lib
       (New\<lparr>r_URL := ''http://example.com/'', r_Method := ''GET'',
            r_Header := fst (Header_Set (NewHeader DefaultHeader) ''Host: FUZZ.example.com'')\<rparr>)
       ''FUZZ'' ''admin''))) = ''FUZZ.example.com'' \<and>
   req_Header (projr (snd (Apply example_lib
       (New\<lparr>r_URL := ''http://example.com/'', r_Method := ''GET'',
            r_Header := fst (Header_Set (NewHeader DefaultHeader) ''Host: FUZZ.example.com'')\<rparr>)
       ''FUZZ'' ''admin''))) ''Host'' = Some [''admin.example.com'']"
  by code_simp

subsection \<open>What the last steps of \<^verbatim>\<open>Apply\<close> keep\<close>

lemma hostLoop_keeps:
  "hostLoop es req = Inr req' \<Longrightarrow>
     req_Body req' = req_Body req \<and> req_ContentLength req' = req_ContentLength req \<and>
     req_Header req' = req_Header req \<and> req_URL req' = req_URL req \<and>
     req_Method req' = req_Method req"
  by (induction es req rule: hostLoop.induct) (auto split: if_splits list.splits)

lemma removeLoop_keeps:
  "removeLoop ks req = Inr req' \<Longrightarrow>
     req_Body req' = req_Body req \<and> req_ContentLength req' = req_ContentLength req \<and>
     req_Host req' = req_Host req \<and> req_URL req' = req_URL req \<and>
     req_Method req' = req_Method req"
  by (induction ks arbitrary: req) (auto simp: Let_def split: if_splits)

lemma authAndPath_keeps:
  "req_Body (authAndPath lib req) = req_Body req \<and>
   req_ContentLength (authAndPath lib req) = req_ContentLength req \<and>
   req_Host (authAndPath lib req) = req_Host req \<and>
   req_Method (authAndPath lib req) = req_Method req"
  by (simp add: authAndPath_def Let_def SetBasicAuth_def split: option.splits)

lemma snd_finishRequest:
  "snd (finishRequest lib h insertValue req) =
     (case hostLoop (h_Header h)
        ((authAndPath lib req)\<lparr>req_Header :=
            snd (Header_Apply h (req_Header (authAndPath lib req)) insertValue)\<rparr>) of
        Inl e \<Rightarrow> Inl e
      | Inr req3 \<Rightarrow> removeLoop (h_Remove h) req3)"
  by (simp add: finishRequest_def Let_def Header_Apply_def)

lemma finishRequest_keeps_body:
  assumes "snd (finishRequest lib h insertValue req) = Inr req'"
  shows "req_Body req' = req_Body req \<and> req_ContentLength req' = req_ContentLength req"
proof -
  obtain req3 where
    h: "hostLoop (h_Header h) ((authAndPath lib req)\<lparr>req_Header :=
            snd (Header_Apply h (req_Header (authAndPath lib req)) insertValue)\<rparr>) = Inr req3"
    and r: "removeLoop (h_Remove h) req3 = Inr req'"
    using assms unfolding snd_finishRequest by (auto split: sum.splits)
  from hostLoop_keeps [OF h] removeLoop_keeps [OF r] authAndPath_keeps [of lib req]
  show ?thesis by simp
qed

lemma Apply_Inr:
  "snd (Apply lib r template value) = Inr req' \<Longrightarrow>
     \<exists>req. buildRequest lib r template value = Inr req \<and>
       snd (finishRequest lib (r_Header r) (\<lambda>s. replaceTemplate lib s template value) req) = Inr req'"
  by (auto simp: Apply_def split: sum.splits prod.splits)


lemma readTemplateFile_Inr:
  assumes "readTemplateFile lib r template value = Inr req0"
  shows "\<exists>buf rd. ReadFile lib (r_TemplateFile r) = Inr buf \<and>
           ReadRequest lib (bytes_Replace lib buf template value) = Inr rd \<and>
           req0 = (rd_req rd)\<lparr>req_Body := fst (rd_body rd) @ fst (rd_rest rd),
                   req_ContentLength := int (length (fst (rd_body rd) @ fst (rd_rest rd)))\<rparr>"
  using assms
  by (auto simp: readTemplateFile_def Let_def split: sum.splits prod.splits option.splits if_splits)

lemma fillFromFields_Inr:
  assumes "fillFromFields lib r insertValue targetURL body req0 = Inr req"
  shows "req_Body req = (if body \<noteq> [] then body else req_Body req0) \<and>
         req_ContentLength req =
           (if body \<noteq> [] then int (length body) else req_ContentLength req0)"
  using assms
  by (auto simp: fillFromFields_def Let_def split: sum.splits if_splits)

lemma buildRequest_file_Inr:
  assumes "r_TemplateFile r \<noteq> []" and "buildRequest lib r template value = Inr req"
  shows "\<exists>req0. readTemplateFile lib r template value = Inr req0 \<and>
           req_Body req =
             (if replaceTemplate lib (r_Body r) template value \<noteq> []
              then replaceTemplate lib (r_Body r) template value else req_Body req0) \<and>
           req_ContentLength req =
             (if r_ForceChunkedEncoding r then - 1
              else if replaceTemplate lib (r_Body r) template value \<noteq> []
              then int (length (replaceTemplate lib (r_Body r) template value))
              else req_ContentLength req0)"
proof -
  from assms obtain req0 req1 where
    a: "readTemplateFile lib r template value = Inr req0"
    and b: "fillFromFields lib r (\<lambda>s. replaceTemplate lib s template value)
              (replaceTemplate lib (r_URL r) template value)
              (replaceTemplate lib (r_Body r) template value) req0 = Inr req1"
    and c: "req = (if r_ForceChunkedEncoding r then req1\<lparr>req_ContentLength := - 1\<rparr> else req1)"
    by (auto simp: buildRequest_def Let_def split: sum.splits)
  from fillFromFields_Inr [OF b] a c show ?thesis by auto
qed

subsection \<open>The body of the template-file path\<close>

text \<open>
  Claim C2. In the template-file path, once the file is read and parsed and the two reads
  end without an error other than the tolerated ones, the bytes left in the stream are
  appended to the bytes read from the parsed body, the result is the request's body and
  its length is the content length. This is the request that leaves the reading step;
  it is also the body and content length of the request that \<^verbatim>\<open>Apply\<close> returns when the
  body field is empty after substitution and chunked encoding is not forced.
\<close>

theorem template_file_body_rebuilt:
  assumes "ReadFile lib (r_TemplateFile r) = Inr buf"
    and "ReadRequest lib (bytes_Replace lib buf template value) = Inr rd"
    and "snd (rd_rest rd) = None \<or> snd (rd_rest rd) = Some EOF"
    and "snd (rd_body rd) = None \<or> snd (rd_body rd) = Some ErrUnexpectedEOF"
  shows "readTemplateFile lib r template value =
           Inr ((rd_req rd)\<lparr>req_Body := fst (rd_body rd) @ fst (rd_rest rd),
                  req_ContentLength := int (length (fst (rd_body rd) @ fst (rd_rest rd)))\<rparr>) \<and>
         (\<forall>req. r_TemplateFile r \<noteq> [] \<and> replaceTemplate lib (r_Body r) template value = [] \<and>
                \<not> r_ForceChunkedEncoding r \<and> snd (Apply lib r template value) = Inr req \<longrightarrow>
            req_Body req = fst (rd_body rd) @ fst (rd_rest rd) \<and>
            req_ContentLength req = int (length (fst (rd_body rd) @ fst (rd_rest rd))))"
proof -
  have stage: "readTemplateFile lib r template value =
           Inr ((rd_req rd)\<lparr>req_Body := fst (rd_body rd) @ fst (rd_rest rd),
                  req_ContentLength := int (length (fst (rd_body rd) @ fst (rd_rest rd)))\<rparr>)"
    using assms by (cases "rd_rest rd"; cases "rd_body rd") (auto simp: readTemplateFile_def Let_def)
  have "req_Body req = fst (rd_body rd) @ fst (rd_rest rd) \<and>
        req_ContentLength req = int (length (fst (rd_body rd) @ fst (rd_rest rd)))"
    if f: "r_TemplateFile r \<noteq> []" and e: "replaceTemplate lib (r_Body r) template value = []"
      and c: "\<not> r_ForceChunkedEncoding r" and a: "snd (Apply lib r template value) = Inr req"
    for req
  proof -
    from Apply_Inr [OF a] obtain req1 where
      b: "buildRequest lib r template value = Inr req1"
      and fin: "snd (finishRequest lib (r_Header r) (\<lambda>s. replaceTemplate lib s template value) req1)
                = Inr req"
      by blast
    from buildRequest_file_Inr [OF f b] stage e c
    have "req_Body req1 = fst (rd_body rd) @ fst (rd_rest rd) \<and>
          req_ContentLength req1 = int (length (fst (rd_body rd) @ fst (rd_rest rd)))"
      by auto
    with finishRequest_keeps_body [OF fin] show ?thesis by simp
  qed
  with stage show ?thesis by blast
qed

theorem template_file_body_rebuilt_witness:
  "ReadFile example_lib (r_TemplateFile example_from_file) = Inr example_file \<and>
   ReadRequest example_lib (bytes_Replace example_lib example_file ''FUZZ'' ''x'')
     = Inr example_reading \<and>
   snd (rd_rest example_reading) = None \<and>
   snd (rd_body example_reading) = Some ErrUnexpectedEOF \<and>
   r_TemplateFile example_from_file \<noteq> [] \<and>
   replaceTemplate example_lib (r_Body example_from_file) ''FUZZ'' ''x'' = [] \<and>
   \<not> r_ForceChunkedEncoding example_from_file \<and>
   \<not> isl (snd (Apply example_lib example_from_file ''FUZZ'' ''x'')) \<and>
   req_Body (projr (snd (Apply example_lib example_from_file ''FUZZ'' ''x''))) = ''abc'' \<and>
   req_ContentLength (projr (snd (Apply example_lib example_from_file ''FUZZ'' ''x''))) = 3"
proof -
  have h1: "ReadFile example_lib (r_TemplateFile example_from_file) = Inr example_file"
    by code_simp
  have h2: "ReadRequest example_lib (bytes_Replace example_lib example_file ''FUZZ'' ''x'')
     = Inr example_reading"
    by (simp add: example_lib_def)
  have h3: "snd (rd_rest example_reading) = None" by (simp add: example_reading_def)
  have h4: "snd (rd_body example_reading) = Some ErrUnexpectedEOF"
    by (simp add: example_reading_def)
  have h5: "r_TemplateFile example_from_file \<noteq> []" by (simp add: example_from_file_def)
  have h6: "replaceTemplate example_lib (r_Body example_from_file) ''FUZZ'' ''x'' = []"
    by (simp add: example_from_file_def New_def replaceTemplate_def example_lib_def Replace_def)
  have h7: "\<not> r_ForceChunkedEncoding example_from_file"
    by (simp add: example_from_file_def New_def)
  have h8: "\<not> isl (snd (Apply example_lib example_from_file ''FUZZ'' ''x''))"
    by code_simp
  then obtain req where r: "snd (Apply example_lib example_from_file ''FUZZ'' ''x'') = Inr req"
    by (cases "snd (Apply example_lib example_from_file ''FUZZ'' ''x'')") auto
  have b: "fst (rd_body example_reading) @ fst (rd_rest example_reading) = ''abc''"
    by (simp add: example_reading_def)
  from template_file_body_rebuilt [of example_lib example_from_file example_file "''FUZZ''" "''x''"
      example_reading, OF h1 h2] h3 h4 h5 h6 h7 r b
  have "req_Body req = ''abc'' \<and> req_ContentLength req = 3" by auto
  with h1 h2 h3 h4 h5 h6 h7 h8 r show ?thesis by simp
qed

text \<open>
  Claim C4, as amended. In the template-file path, when \<^verbatim>\<open>Apply\<close> returns a request: if
  the body field is non-empty after substitution, the request's body is that substituted
  field, whatever the file gave, and its content length is the length of that field,
  unless chunked encoding is forced, in which case the content length is \<open>-1\<close>; if the
  body field is empty after substitution, the body assembled from the file is kept, with
  its content length (again \<open>-1\<close> when chunked encoding is forced).
\<close>

theorem body_field_overrides_file_body:
  assumes "r_TemplateFile r \<noteq> []" and "snd (Apply lib r template value) = Inr req"
  shows "(replaceTemplate lib (r_Body r) template value \<noteq> [] \<longrightarrow>
            req_Body req = replaceTemplate lib (r_Body r) template value \<and>
            req_ContentLength req =
              (if r_ForceChunkedEncoding r then - 1
               else int (length (replaceTemplate lib (r_Body r) template value)))) \<and>
         (replaceTemplate lib (r_Body r) template value = [] \<longrightarrow>
            (\<exists>req0. readTemplateFile lib r template value = Inr req0 \<and>
               req_Body req = req_Body req0 \<and>
               req_ContentLength req =
                 (if r_ForceChunkedEncoding r then - 1 else req_ContentLength req0)))"
proof -
  from Apply_Inr [OF assms(2)] obtain req1 where
    b: "buildRequest lib r template value = Inr req1"
    and fin: "snd (finishRequest lib (r_Header r) (\<lambda>s. replaceTemplate lib s template value) req1)
              = Inr req"
    by blast
  from buildRequest_file_Inr [OF assms(1) b] finishRequest_keeps_body [OF fin]
  show ?thesis by auto
qed

theorem body_field_overrides_file_body_witness:
  "r_TemplateFile (example_from_file\<lparr>r_Body := ''zFUZZ''\<rparr>) \<noteq> [] \<and>
   \<not> isl (snd (Apply example_lib (example_from_file\<lparr>r_Body := ''zFUZZ''\<rparr>) ''FUZZ'' ''x'')) \<and>
   replaceTemplate example_lib (r_Body (example_from_file\<lparr>r_Body := ''zFUZZ''\<rparr>)) ''FUZZ'' ''x''
     = ''zx'' \<and>
   req_Body (projr (snd (Apply example_lib (example_from_file\<lparr>r_Body := ''zFUZZ''\<rparr>)
     ''FUZZ'' ''x''))) = ''zx'' \<and>
   req_ContentLength (projr (snd (Apply example_lib (example_from_file\<lparr>r_Body := ''zFUZZ''\<rparr>)
     ''FUZZ'' ''x''))) = 2"
proof -
  let ?r = "example_from_file\<lparr>r_Body := ''zFUZZ''\<rparr>"
  have h1: "r_TemplateFile ?r \<noteq> []" by (simp add: example_from_file_def)
  have h2: "\<not> isl (snd (Apply example_lib ?r ''FUZZ'' ''x''))" by code_simp
  then obtain req where r: "snd (Apply example_lib ?r ''FUZZ'' ''x'') = Inr req"
    by (cases "snd (Apply example_lib ?r ''FUZZ'' ''x'')") auto
  have h3: "replaceTemplate example_lib (r_Body ?r) ''FUZZ'' ''x'' = ''zx''" by code_simp
  have h4: "\<not> r_ForceChunkedEncoding ?r" by (simp add: example_from_file_def New_def)
  from body_field_overrides_file_body [OF h1 r] h3 h4
  have "req_Body req = ''zx'' \<and> req_ContentLength req = 2" by simp
  with h1 h2 h3 r show ?thesis by simp
qed

text \<open>
  Claim C4 as stated fails when chunked encoding is forced: with the body field
  \<^verbatim>\<open>zFUZZ\<close> and the value \<^verbatim>\<open>x\<close>, the request is produced with content length \<open>-1\<close>, not
  the length 2 of the substituted field.
\<close>

theorem forced_chunked_content_length_counterexample:
  "r_TemplateFile (example_from_file\<lparr>r_Body := ''zFUZZ'', r_ForceChunkedEncoding := True\<rparr>) \<noteq> [] \<and>
   replaceTemplate example_lib ''zFUZZ'' ''FUZZ'' ''x'' = ''zx'' \<and>
   \<not> isl (snd (Apply example_lib
       (example_from_file\<lparr>r_Body := ''zFUZZ'', r_ForceChunkedEncoding := True\<rparr>) ''FUZZ'' ''x'')) \<and>
   req_ContentLength (projr (snd (Apply example_lib
       (example_from_file\<lparr>r_Body := ''zFUZZ'', r_ForceChunkedEncoding := True\<rparr>) ''FUZZ'' ''x'')))
     = - 1 \<and>
   req_ContentLength (projr (snd (Apply example_lib
       (example_from_file\<lparr>r_Body := ''zFUZZ'', r_ForceChunkedEncoding := True\<rparr>) ''FUZZ'' ''x'')))
     \<noteq> int (length ''zx'')"
  by code_simp

subsection \<open>Errors of the last steps, and the check of the URL field\<close>

lemma hostLoop_Inl: "hostLoop es req = Inl e \<Longrightarrow> e = Panic"
  by (induction es req rule: hostLoop.induct) (auto split: if_splits list.splits)

lemma removeLoop_Inl: "removeLoop ks req = Inl e \<Longrightarrow> e = ErrHostRemoval"
  by (induction ks arbitrary: req) (auto simp: Let_def split: if_splits)

lemma finishRequest_Inl:
  "snd (finishRequest lib h insertValue req) = Inl e \<Longrightarrow> e = Panic \<or> e = ErrHostRemoval"
  unfolding snd_finishRequest
  by (auto split: sum.splits dest: hostLoop_Inl removeLoop_Inl)

lemma snd_Apply:
  "snd (Apply lib r template value) =
     (case buildRequest lib r template value of
        Inl e \<Rightarrow> Inl e
      | Inr req \<Rightarrow>
          snd (finishRequest lib (r_Header r) (\<lambda>s. replaceTemplate lib s template value) req))"
  by (auto simp: Apply_def split: sum.splits prod.splits)

lemma buildRequest_file_checks:
  assumes "r_TemplateFile r \<noteq> []"
    and "readTemplateFile lib r template value = Inr req0"
    and "url_Parse lib (replaceTemplate lib (r_URL r) template value) = Inr u"
  shows "buildRequest lib r template value =
           (if u_Path u \<noteq> [] \<and> u_Path u \<noteq> ''/'' then Inl ErrURLPath
            else if u_RawQuery u \<noteq> [] then Inl ErrURLQuery
            else buildRequest lib r template value) \<and>
         ((u_Path u = [] \<or> u_Path u = ''/'') \<and> u_RawQuery u = [] \<longrightarrow>
            \<not> isl (buildRequest lib r template value))"
  using assms by (auto simp: buildRequest_def fillFromFields_def Let_def)

text \<open>
  Claim C3, as amended. Let a template file be configured. When it was read and parsed
  without error and the URL field (after substitution) parses as a URL, \<^verbatim>\<open>Apply\<close> fails
  with one of the two URL validation errors exactly when the parsed URL has a non-empty
  path other than \<^verbatim>\<open>/\<close> or a non-empty query string; so a URL field of the form
  scheme://host is accepted, and one with any other path is rejected. When an earlier step
  fails, \<^verbatim>\<open>Apply\<close> returns that step's error instead: the error of reading the template
  (the error of reading the file, or the error of parsing it wrapped with the file name,
  among them), or, the template being read, the error of parsing the URL field.
\<close>

theorem URL_field_validation:
  assumes "r_TemplateFile r \<noteq> []"
  shows "(\<forall>req0 u. readTemplateFile lib r template value = Inr req0 \<and>
            url_Parse lib (replaceTemplate lib (r_URL r) template value) = Inr u \<longrightarrow>
            ((snd (Apply lib r template value) = Inl ErrURLPath \<or>
              snd (Apply lib r template value) = Inl ErrURLQuery) \<longleftrightarrow>
             ((u_Path u \<noteq> [] \<and> u_Path u \<noteq> ''/'') \<or> u_RawQuery u \<noteq> []))) \<and>
         (\<forall>e. readTemplateFile lib r template value = Inl e \<longrightarrow>
            snd (Apply lib r template value) = Inl e) \<and>
         (\<forall>req0 err. readTemplateFile lib r template value = Inr req0 \<and>
            url_Parse lib (replaceTemplate lib (r_URL r) template value) = Inl err \<longrightarrow>
            snd (Apply lib r template value) = Inl (Err err)) \<and>
         (\<forall>err. ReadFile lib (r_TemplateFile r) = Inl err \<longrightarrow>
            snd (Apply lib r template value) = Inl (Err err)) \<and>
         (\<forall>buf err. ReadFile lib (r_TemplateFile r) = Inr buf \<and>
            ReadRequest lib (bytes_Replace lib buf template value) = Inl err \<longrightarrow>
            snd (Apply lib r template value) = Inl (ErrReadRequest (r_TemplateFile r) err))"
proof -
  have check: "(snd (Apply lib r template value) = Inl ErrURLPath \<or>
          snd (Apply lib r template value) = Inl ErrURLQuery) \<longleftrightarrow>
         ((u_Path u \<noteq> [] \<and> u_Path u \<noteq> ''/'') \<or> u_RawQuery u \<noteq> [])"
    if rd: "readTemplateFile lib r template value = Inr req0"
      and up: "url_Parse lib (replaceTemplate lib (r_URL r) template value) = Inr u"
    for req0 u
  proof (cases "(u_Path u \<noteq> [] \<and> u_Path u \<noteq> ''/'') \<or> u_RawQuery u \<noteq> []")
    case True
    with buildRequest_file_checks [OF assms rd up]
    have "buildRequest lib r template value = Inl ErrURLPath \<or>
          buildRequest lib r template value = Inl ErrURLQuery"
      by (auto split: if_splits)
    with True show ?thesis by (auto simp: snd_Apply)
  next
    case False
    with buildRequest_file_checks [OF assms rd up]
    obtain req where b: "buildRequest lib r template value = Inr req"
      by (cases "buildRequest lib r template value") auto
    have "snd (Apply lib r template value) \<noteq> Inl ErrURLPath \<and>
          snd (Apply lib r template value) \<noteq> Inl ErrURLQuery"
      using finishRequest_Inl [of lib "r_Header r" "\<lambda>s. replaceTemplate lib s template value" req]
      by (auto simp: snd_Apply b)
    with False show ?thesis by blast
  qed
  have early: "snd (Apply lib r template value) = Inl e"
    if "readTemplateFile lib r template value = Inl e" for e
    using that assms by (simp add: snd_Apply buildRequest_def Let_def)
  have parse: "snd (Apply lib r template value) = Inl (Err err)"
    if "readTemplateFile lib r template value = Inr req0"
      and "url_Parse lib (replaceTemplate lib (r_URL r) template value) = Inl err"
    for req0 err
    using that assms by (simp add: snd_Apply buildRequest_def fillFromFields_def Let_def)
  have unreadable: "snd (Apply lib r template value) = Inl (Err err)"
    if "ReadFile lib (r_TemplateFile r) = Inl err" for err
    by (rule early) (simp add: readTemplateFile_def that)
  have unparsed: "snd (Apply lib r template value) = Inl (ErrReadRequest (r_TemplateFile r) err)"
    if "ReadFile lib (r_TemplateFile r) = Inr buf"
      and "ReadRequest lib (bytes_Replace lib buf template value) = Inl err"
    for buf err
    by (rule early) (simp add: readTemplateFile_def that)
  from check early parse unreadable unparsed show ?thesis by blast
qed

theorem URL_field_validation_witness:
  "r_TemplateFile (example_from_file\<lparr>r_URL := ''https://example.com/somepath''\<rparr>) \<noteq> [] \<and>
   \<not> isl (readTemplateFile example_lib
       (example_from_file\<lparr>r_URL := ''https://example.com/somepath''\<rparr>) ''FUZZ'' ''x'') \<and>
   url_Parse example_lib (replaceTemplate example_lib
       (r_URL (example_from_file\<lparr>r_URL := ''https://example.com/somepath''\<rparr>)) ''FUZZ'' ''x'') =
     Inr \<lparr>u_Scheme = ''https'', u_User = None, u_Host = ''example.com'',
          u_Path = ''/somepath'', u_RawQuery = []\<rparr> \<and>
   (snd (Apply example_lib (example_from_file\<lparr>r_URL := ''https://example.com/somepath''\<rparr>)
       ''FUZZ'' ''x'') = Inl ErrURLPath \<or>
    snd (Apply example_lib (example_from_file\<lparr>r_URL := ''https://example.com/somepath''\<rparr>)
       ''FUZZ'' ''x'') = Inl ErrURLQuery) \<and>
   r_TemplateFile (example_from_file\<lparr>r_TemplateFile := ''missing.txt''\<rparr>) \<noteq> [] \<and>
   ReadFile example_lib (r_TemplateFile (example_from_file\<lparr>r_TemplateFile := ''missing.txt''\<rparr>))
     = Inl (OtherError ''no such file or directory'') \<and>
   snd (Apply example_lib (example_from_file\<lparr>r_TemplateFile := ''missing.txt''\<rparr>) ''FUZZ'' ''x'')
     = Inl (Err (OtherError ''no such file or directory''))"
proof -
  let ?r = "example_from_file\<lparr>r_URL := ''https://example.com/somepath''\<rparr>"
  let ?u = "\<lparr>u_Scheme = ''https'', u_User = None, u_Host = ''example.com'',
          u_Path = ''/somepath'', u_RawQuery = []\<rparr>"
  let ?m = "example_from_file\<lparr>r_TemplateFile := ''missing.txt''\<rparr>"
  have h1: "r_TemplateFile ?r \<noteq> []" by (simp add: example_from_file_def)
  have h2: "\<not> isl (readTemplateFile example_lib ?r ''FUZZ'' ''x'')" by code_simp
  then obtain req0 where r: "readTemplateFile example_lib ?r ''FUZZ'' ''x'' = Inr req0"
    by (cases "readTemplateFile example_lib ?r ''FUZZ'' ''x''") auto
  have h3: "url_Parse example_lib (replaceTemplate example_lib (r_URL ?r) ''FUZZ'' ''x'') = Inr ?u"
    by code_simp
  have bad: "(u_Path ?u \<noteq> [] \<and> u_Path ?u \<noteq> ''/'') \<or> u_RawQuery ?u \<noteq> []" by simp
  note T = URL_field_validation [OF h1, of example_lib "''FUZZ''" "''x''", THEN conjunct1,
      THEN spec [where x = req0], THEN spec [where x = ?u], THEN mp, OF conjI [OF r h3]]
  from T bad
  have c1: "snd (Apply example_lib ?r ''FUZZ'' ''x'') = Inl ErrURLPath \<or>
        snd (Apply example_lib ?r ''FUZZ'' ''x'') = Inl ErrURLQuery"
    by (rule iffD2)
  have m1: "r_TemplateFile ?m \<noteq> []" by simp
  have m2: "ReadFile example_lib (r_TemplateFile ?m) = Inl (OtherError ''no such file or directory'')"
    by (simp add: example_lib_def)
  note M = URL_field_validation [OF m1, of example_lib "''FUZZ''" "''x''", THEN conjunct2,
      THEN conjunct2, THEN conjunct2, THEN conjunct1,
      THEN spec [where x = "OtherError ''no such file or directory''"], THEN mp, OF m2]
  from h1 h2 h3 c1 m1 m2 M show ?thesis by (intro conjI)
qed

text \<open>
  Claim C3 as stated fails when an earlier step fails: with a template file that cannot
  be read and the URL field \<^verbatim>\<open>https://example.com/somepath\<close>, whose path is not the root,
  \<^verbatim>\<open>Apply\<close> fails with the error of reading the file, not with a validation error.
\<close>

theorem unreadable_file_precedes_validation_counterexample:
  "r_TemplateFile (example_from_file\<lparr>r_URL := ''https://example.com/somepath'',
       r_TemplateFile := ''missing.txt''\<rparr>) \<noteq> [] \<and>
   u_Path (projr (url_Parse example_lib (replaceTemplate example_lib
       ''https://example.com/somepath'' ''FUZZ'' ''x''))) = ''/somepath'' \<and>
   isl (snd (Apply example_lib (example_from_file\<lparr>r_URL := ''https://example.com/somepath'',
       r_TemplateFile := ''missing.txt''\<rparr>) ''FUZZ'' ''x'')) \<and>
   projl (snd (Apply example_lib (example_from_file\<lparr>r_URL := ''https://example.com/somepath'',
       r_TemplateFile := ''missing.txt''\<rparr>) ''FUZZ'' ''x'')) =
     Err (OtherError ''no such file or directory'') \<and>
   projl (snd (Apply example_lib (example_from_file\<lparr>r_URL := ''https://example.com/somepath'',
       r_TemplateFile := ''missing.txt''\<rparr>) ''FUZZ'' ''x'')) \<noteq> ErrURLPath \<and>
   projl (snd (Apply example_lib (example_from_file\<lparr>r_URL := ''https://example.com/somepath'',
       r_TemplateFile := ''missing.txt''\<rparr>) ''FUZZ'' ''x'')) \<noteq> ErrURLQuery"
  by code_simp

subsection \<open>Removing the Host header\<close>

lemma removeLoop_Host:
  "''Host'' \<in> CanonicalMIMEHeaderKey ` set ks \<Longrightarrow> removeLoop ks req = Inl ErrHostRemoval"
  by (induction ks arbitrary: req) (auto simp: Let_def)

lemma hostLoop_no_panic:
  "list_all (\<lambda>e. CanonicalMIMEHeaderKey (fst e) = ''Host'' \<longrightarrow> snd e \<noteq> []) es \<Longrightarrow>
     \<not> isl (hostLoop es req)"
  by (induction es req rule: hostLoop.induct) (auto split: list.splits)

lemma hostLoop_panic:
  "\<not> list_all (\<lambda>e. CanonicalMIMEHeaderKey (fst e) = ''Host'' \<longrightarrow> snd e \<noteq> []) es \<Longrightarrow>
     hostLoop es req = Inl Panic"
  by (induction es req rule: hostLoop.induct) (auto split: list.splits)

text \<open>
  Claim C8, as amended. When the removals of the header set contain a name that
  canonicalizes to \<^verbatim>\<open>Host\<close>, \<^verbatim>\<open>Apply\<close> returns no request. The error is the one for the
  unsupported removal of the Host header whenever the steps before it succeed: the request
  is built without error and no stored header whose name canonicalizes to \<^verbatim>\<open>Host\<close> has an
  empty value sequence. When building the request fails, \<^verbatim>\<open>Apply\<close> returns the error of
  that step. When the request is built and a stored header whose name canonicalizes to
  \<^verbatim>\<open>Host\<close> has an empty value sequence, \<^verbatim>\<open>Apply\<close> does not return at all: reading the
  first value panics (an index out of range).
\<close>

theorem Host_removal_fails:
  assumes "''Host'' \<in> CanonicalMIMEHeaderKey ` set (h_Remove (r_Header r))"
  shows "isl (snd (Apply lib r template value)) \<and>
         (\<not> isl (buildRequest lib r template value) \<and>
          list_all (\<lambda>e. CanonicalMIMEHeaderKey (fst e) = ''Host'' \<longrightarrow> snd e \<noteq> [])
            (h_Header (r_Header r)) \<longrightarrow>
          snd (Apply lib r template value) = Inl ErrHostRemoval) \<and>
         (\<forall>e. buildRequest lib r template value = Inl e \<longrightarrow>
            snd (Apply lib r template value) = Inl e) \<and>
         (\<not> isl (buildRequest lib r template value) \<and>
          \<not> list_all (\<lambda>e. CanonicalMIMEHeaderKey (fst e) = ''Host'' \<longrightarrow> snd e \<noteq> [])
            (h_Header (r_Header r)) \<longrightarrow>
          snd (Apply lib r template value) = Inl Panic)"
proof -
  have fin: "isl (snd (finishRequest lib (r_Header r) f req))" for f req
    unfolding snd_finishRequest using removeLoop_Host [OF assms]
    by (auto split: sum.splits)
  have fin': "snd (finishRequest lib (r_Header r) f req) = Inl ErrHostRemoval"
    if "list_all (\<lambda>e. CanonicalMIMEHeaderKey (fst e) = ''Host'' \<longrightarrow> snd e \<noteq> [])
            (h_Header (r_Header r))" for f req
  proof -
    let ?q = "(authAndPath lib req)\<lparr>req_Header :=
                snd (Header_Apply (r_Header r) (req_Header (authAndPath lib req)) f)\<rparr>"
    from hostLoop_no_panic [OF that, of ?q]
    obtain req3 where "hostLoop (h_Header (r_Header r)) ?q = Inr req3"
      by (cases "hostLoop (h_Header (r_Header r)) ?q") auto
    then show ?thesis
      unfolding snd_finishRequest using removeLoop_Host [OF assms] by simp
  qed
  have fin'': "snd (finishRequest lib (r_Header r) f req) = Inl Panic"
    if "\<not> list_all (\<lambda>e. CanonicalMIMEHeaderKey (fst e) = ''Host'' \<longrightarrow> snd e \<noteq> [])
            (h_Header (r_Header r))" for f req
    unfolding snd_finishRequest by (simp add: hostLoop_panic [OF that])
  have one: "isl (snd (Apply lib r template value))"
    using fin by (cases "buildRequest lib r template value") (auto simp: snd_Apply)
  have two: "snd (Apply lib r template value) = Inl ErrHostRemoval"
    if "\<not> isl (buildRequest lib r template value)"
      and "list_all (\<lambda>e. CanonicalMIMEHeaderKey (fst e) = ''Host'' \<longrightarrow> snd e \<noteq> [])
            (h_Header (r_Header r))"
    using that(1) fin' [OF that(2)]
    by (cases "buildRequest lib r template value") (auto simp: snd_Apply)
  have three: "snd (Apply lib r template value) = Inl e"
    if "buildRequest lib r template value = Inl e" for e
    using that by (simp add: snd_Apply)
  have four: "snd (Apply lib r template value) = Inl Panic"
    if "\<not> isl (buildRequest lib r template value)"
      and "\<not> list_all (\<lambda>e. CanonicalMIMEHeaderKey (fst e) = ''Host'' \<longrightarrow> snd e \<noteq> [])
            (h_Header (r_Header r))"
    using that(1) fin'' [OF that(2)]
    by (cases "buildRequest lib r template value") (auto simp: snd_Apply)
  from one two three four show ?thesis by blast
qed

theorem Host_removal_fails_witness:
  "''Host'' \<in> CanonicalMIMEHeaderKey ` set (h_Remove (r_Header
      (example_fields\<lparr>r_Header := fst (Header_Set (NewHeader DefaultHeader) ''Host'')\<rparr>))) \<and>
   \<not> isl (buildRequest example_lib
      (example_fields\<lparr>r_Header := fst (Header_Set (NewHeader DefaultHeader) ''Host'')\<rparr>)
      ''FUZZ'' ''x'') \<and>
   snd (Apply example_lib
      (example_fields\<lparr>r_Header := fst (Header_Set (NewHeader DefaultHeader) ''Host'')\<rparr>)
      ''FUZZ'' ''x'') = Inl ErrHostRemoval \<and>
   ''Host'' \<in> CanonicalMIMEHeaderKey ` set (h_Remove (r_Header
      (example_fields\<lparr>r_Header := \<lparr>h_Header = [(''Host'', [])], h_Remove = [''Host'']\<rparr>\<rparr>))) \<and>
   \<not> isl (buildRequest example_lib
      (example_fields\<lparr>r_Header := \<lparr>h_Header = [(''Host'', [])], h_Remove = [''Host'']\<rparr>\<rparr>)
      ''FUZZ'' ''x'') \<and>
   snd (Apply example_lib
      (example_fields\<lparr>r_Header := \<lparr>h_Header = [(''Host'', [])], h_Remove = [''Host'']\<rparr>\<rparr>)
      ''FUZZ'' ''x'') = Inl Panic"
proof -
  let ?r = "example_fields\<lparr>r_Header := fst (Header_Set (NewHeader DefaultHeader) ''Host'')\<rparr>"
  let ?p = "example_fields\<lparr>r_Header := \<lparr>h_Header = [(''Host'', [])], h_Remove = [''Host'']\<rparr>\<rparr>"
  have h1: "''Host'' \<in> CanonicalMIMEHeaderKey ` set (h_Remove (r_Header ?r))" by code_simp
  have h2: "\<not> isl (buildRequest example_lib ?r ''FUZZ'' ''x'')" by code_simp
  have h3: "list_all (\<lambda>e. CanonicalMIMEHeaderKey (fst e) = ''Host'' \<longrightarrow> snd e \<noteq> [])
            (h_Header (r_Header ?r))" by code_simp
  note T = Host_removal_fails [OF h1, of example_lib "''FUZZ''" "''x''", THEN conjunct2,
      THEN conjunct1, THEN mp, OF conjI [OF h2 h3]]
  have p1: "''Host'' \<in> CanonicalMIMEHeaderKey ` set (h_Remove (r_Header ?p))" by code_simp
  have p2: "\<not> isl (buildRequest example_lib ?p ''FUZZ'' ''x'')" by code_simp
  have p3: "\<not> list_all (\<lambda>e. CanonicalMIMEHeaderKey (fst e) = ''Host'' \<longrightarrow> snd e \<noteq> [])
            (h_Header (r_Header ?p))" by code_simp
  note P = Host_removal_fails [OF p1, of example_lib "''FUZZ''" "''x''", THEN conjunct2,
      THEN conjunct2, THEN conjunct2, THEN mp, OF conjI [OF p2 p3]]
  from h1 h2 T p1 p2 P show ?thesis by (intro conjI)
qed

text \<open>
  Claim C8 as stated fails when an earlier step fails: with the removal \<^verbatim>\<open>Host\<close> and a
  template file that cannot be read, \<^verbatim>\<open>Apply\<close> fails with the error of reading the file,
  not with the error for the unsupported removal.
\<close>

theorem Host_removal_other_error_counterexample:
  "''Host'' \<in> CanonicalMIMEHeaderKey ` set (h_Remove (r_Header
      (example_fields\<lparr>r_Header := fst (Header_Set (NewHeader DefaultHeader) ''Host''),
         r_TemplateFile := ''missing.txt''\<rparr>))) \<and>
   isl (snd (Apply example_lib
      (example_fields\<lparr>r_Header := fst (Header_Set (NewHeader DefaultHeader) ''Host''),
         r_TemplateFile := ''missing.txt''\<rparr>) ''FUZZ'' ''x'')) \<and>
   projl (snd (Apply example_lib
      (example_fields\<lparr>r_Header := fst (Header_Set (NewHeader DefaultHeader) ''Host''),
         r_TemplateFile := ''missing.txt''\<rparr>) ''FUZZ'' ''x'')) =
     Err (OtherError ''no such file or directory'') \<and>
   projl (snd (Apply example_lib
      (example_fields\<lparr>r_Header := fst (Header_Set (NewHeader DefaultHeader) ''Host''),
         r_TemplateFile := ''missing.txt''\<rparr>) ''FUZZ'' ''x'')) \<noteq> ErrHostRemoval"
  by code_simp

subsection \<open>Which target entries \<^verbatim>\<open>Header.Apply\<close> touches\<close>

lemma canonical_names:
  "CanonicalMIMEHeaderKey ''Authorization'' = ''Authorization''"
  "CanonicalMIMEHeaderKey ''User-Agent'' = ''User-Agent''"
  "CanonicalMIMEHeaderKey ''Accept'' = ''Accept''"
  "CanonicalMIMEHeaderKey ''accept'' = ''Accept''"
  "CanonicalMIMEHeaderKey ''Host'' = ''Host''"
  by code_simp+

lemma Del_other: "CanonicalMIMEHeaderKey k \<noteq> K \<Longrightarrow> Del hdr k K = hdr K"
  by (simp add: Del_def)

lemma Del_same: "Del hdr k (CanonicalMIMEHeaderKey k) = None"
  by (simp add: Del_def)

lemma Add_other: "CanonicalMIMEHeaderKey k \<noteq> K \<Longrightarrow> Add hdr k v K = hdr K"
  by (simp add: Add_def Let_def)

lemma fold_Add_other:
  "CanonicalMIMEHeaderKey k \<noteq> K \<Longrightarrow> fold (\<lambda>v t. Add t k (f v)) vs hdr K = hdr K"
  by (induction vs arbitrary: hdr) (simp_all add: Add_other)

lemma fold_Add_same:
  "fold (\<lambda>v t. Add t k (f v)) vs hdr (CanonicalMIMEHeaderKey k) =
     (if vs = [] then hdr (CanonicalMIMEHeaderKey k)
      else Some ((case hdr (CanonicalMIMEHeaderKey k) of None \<Rightarrow> [] | Some ws \<Rightarrow> ws) @ map f vs))"
  by (induction vs arbitrary: hdr) (auto simp: Add_def Let_def)

lemma Header_Apply_entry_other:
  "CanonicalMIMEHeaderKey k \<noteq> K \<Longrightarrow> CanonicalMIMEHeaderKey (ins k) \<noteq> K \<Longrightarrow>
     Header_Apply_entry h ins (k, vs) hdr K = hdr K"
  by (simp add: Header_Apply_entry_def fold_Add_other Del_other)

lemma fold_entries_other:
  "list_all (\<lambda>e. CanonicalMIMEHeaderKey (fst e) \<noteq> K \<and> CanonicalMIMEHeaderKey (ins (fst e)) \<noteq> K) es
     \<Longrightarrow> fold (Header_Apply_entry h ins) es hdr K = hdr K"
proof (induction es arbitrary: hdr)
  case Nil
  then show ?case by simp
next
  case (Cons e es)
  obtain k vs where e: "e = (k, vs)" by (cases e)
  from Cons show ?case by (simp add: e Header_Apply_entry_other)
qed

lemma fold_Del_other:
  "list_all (\<lambda>k. CanonicalMIMEHeaderKey k \<noteq> K) ks \<Longrightarrow> fold (\<lambda>k t. Del t k) ks hdr K = hdr K"
  by (induction ks arbitrary: hdr) (simp_all add: Del_other)

lemma Header_Apply_entry_replaces:
  assumes "CanonicalMIMEHeaderKey k = K" and "CanonicalMIMEHeaderKey (ins k) = K"
    and "\<not> (hdr k \<noteq> None \<and> headerDefaultValue h k)"
  shows "Header_Apply_entry h ins (k, vs) hdr K = (if vs = [] then None else Some (map ins vs))"
  using assms fold_Add_same [of "ins k" ins vs "Del hdr k"] Del_same [of hdr k]
  by (auto simp: Header_Apply_entry_def)

lemma removeLoop_header:
  "removeLoop ks req = Inr req' \<Longrightarrow> K \<noteq> ''User-Agent'' \<Longrightarrow> req_Header req' K = req_Header req K"
  by (induction ks arbitrary: req)
    (auto simp: Let_def Set_hdr_def canonical_names split: if_splits)

lemma headerDefaultValue_no_default:
  "map_of DefaultHeader (CanonicalMIMEHeaderKey k) = None \<Longrightarrow> \<not> headerDefaultValue h k"
  by (simp add: headerDefaultValue_def Let_def split: option.splits)

subsection \<open>Basic authentication and the header set\<close>

lemma authAndPath_Authorization:
  "u_User (req_URL req) = Some ui \<Longrightarrow>
     req_Header (authAndPath lib req) ''Authorization'' =
       Some [''Basic '' @ basicAuth lib (username ui) (password ui)]"
  by (simp add: authAndPath_def Let_def SetBasicAuth_def Set_hdr_def canonical_names)

lemma finishRequest_header:
  assumes "snd (finishRequest lib h ins req) = Inr req'" and "K \<noteq> ''User-Agent''"
  shows "req_Header req' K = snd (Header_Apply h (req_Header (authAndPath lib req)) ins) K"
proof -
  obtain req3 where
    h: "hostLoop (h_Header h) ((authAndPath lib req)\<lparr>req_Header :=
            snd (Header_Apply h (req_Header (authAndPath lib req)) ins)\<rparr>) = Inr req3"
    and r: "removeLoop (h_Remove h) req3 = Inr req'"
    using assms(1) unfolding snd_finishRequest by (auto split: sum.splits)
  from hostLoop_keeps [OF h] removeLoop_header [OF r assms(2)] show ?thesis by simp
qed

lemma buildRequest_file_user:
  assumes "r_TemplateFile r \<noteq> []" and "buildRequest lib r template value = Inr req"
    and "url_Parse lib (replaceTemplate lib (r_URL r) template value) = Inr u"
    and "u_User u = Some ui"
  shows "u_User (req_URL req) = Some ui"
  using assms
  by (auto simp: buildRequest_def fillFromFields_def Let_def split: sum.splits if_splits)

text \<open>
  Claim C1, as amended. When the request built from the template carries user information
  in its URL (in the template-file path this is the user information of the URL field,
  when it has one), \<^verbatim>\<open>Apply\<close> sets the basic-authentication \<^verbatim>\<open>Authorization\<close> header before
  the header set is applied. The header is still there in the request returned if no
  stored header name canonicalizes to \<^verbatim>\<open>Authorization\<close>, before or after substitution, and
  no removal does. A stored header whose name canonicalizes to \<^verbatim>\<open>Authorization\<close> (the last
  such one in iteration order) replaces it with its own substituted values.
\<close>

theorem basic_auth_and_header_set:
  assumes "buildRequest lib r template value = Inr req0"
    and "u_User (req_URL req0) = Some ui"
    and "snd (Apply lib r template value) = Inr req"
  shows "(list_all (\<lambda>e. CanonicalMIMEHeaderKey (fst e) \<noteq> ''Authorization'' \<and>
              CanonicalMIMEHeaderKey (replaceTemplate lib (fst e) template value) \<noteq> ''Authorization'')
            (h_Header (r_Header r)) \<and>
          list_all (\<lambda>k. CanonicalMIMEHeaderKey k \<noteq> ''Authorization'') (h_Remove (r_Header r)) \<longrightarrow>
          req_Header req ''Authorization'' =
            Some [''Basic '' @ basicAuth lib (username ui) (password ui)]) \<and>
         (\<forall>pre k vs post.
            h_Header (r_Header r) = pre @ (k, vs) # post \<and>
            CanonicalMIMEHeaderKey k = ''Authorization'' \<and>
            CanonicalMIMEHeaderKey (replaceTemplate lib k template value) = ''Authorization'' \<and>
            list_all (\<lambda>e. CanonicalMIMEHeaderKey (fst e) \<noteq> ''Authorization'' \<and>
              CanonicalMIMEHeaderKey (replaceTemplate lib (fst e) template value) \<noteq> ''Authorization'')
              post \<and>
            list_all (\<lambda>k. CanonicalMIMEHeaderKey k \<noteq> ''Authorization'') (h_Remove (r_Header r)) \<longrightarrow>
            req_Header req ''Authorization'' =
              (if vs = [] then None
               else Some (map (\<lambda>s. replaceTemplate lib s template value) vs))) \<and>
         (\<forall>u ui'. r_TemplateFile r \<noteq> [] \<and>
            url_Parse lib (replaceTemplate lib (r_URL r) template value) = Inr u \<and>
            u_User u = Some ui' \<longrightarrow> ui = ui')"
proof -
  let ?ins = "\<lambda>s. replaceTemplate lib s template value"
  let ?h = "r_Header r"
  let ?A = "''Authorization''"
  let ?t = "req_Header (authAndPath lib req0)"
  from assms(1,3) have fin: "snd (finishRequest lib ?h ?ins req0) = Inr req"
    by (simp add: snd_Apply)
  have final: "req_Header req ?A = snd (Header_Apply ?h ?t ?ins) ?A"
    using finishRequest_header [OF fin, of ?A] by simp
  have start: "?t ?A = Some [''Basic '' @ basicAuth lib (username ui) (password ui)]"
    by (rule authAndPath_Authorization [OF assms(2)])
  have one: "req_Header req ?A = Some [''Basic '' @ basicAuth lib (username ui) (password ui)]"
    if "list_all (\<lambda>e. CanonicalMIMEHeaderKey (fst e) \<noteq> ?A \<and>
              CanonicalMIMEHeaderKey (?ins (fst e)) \<noteq> ?A) (h_Header ?h)"
      and "list_all (\<lambda>k. CanonicalMIMEHeaderKey k \<noteq> ?A) (h_Remove ?h)"
    using final start fold_Del_other [OF that(2)] fold_entries_other [OF that(1)]
    by (simp add: Header_Apply_def)
  have two: "req_Header req ?A = (if vs = [] then None else Some (map ?ins vs))"
    if s: "h_Header ?h = pre @ (k, vs) # post"
      and k: "CanonicalMIMEHeaderKey k = ?A" "CanonicalMIMEHeaderKey (?ins k) = ?A"
      and p: "list_all (\<lambda>e. CanonicalMIMEHeaderKey (fst e) \<noteq> ?A \<and>
              CanonicalMIMEHeaderKey (?ins (fst e)) \<noteq> ?A) post"
      and d: "list_all (\<lambda>k. CanonicalMIMEHeaderKey k \<noteq> ?A) (h_Remove ?h)"
    for pre k vs post
  proof -
    have nd: "\<not> headerDefaultValue ?h k"
      by (rule headerDefaultValue_no_default) (simp add: k DefaultHeader_def)
    let ?m = "fold (Header_Apply_entry ?h ?ins) pre ?t"
    have "Header_Apply_entry ?h ?ins (k, vs) ?m ?A = (if vs = [] then None else Some (map ?ins vs))"
      using Header_Apply_entry_replaces [of k ?A ?ins ?m ?h vs] k nd by simp
    then have "fold (Header_Apply_entry ?h ?ins) (h_Header ?h) ?t ?A =
        (if vs = [] then None else Some (map ?ins vs))"
      using fold_entries_other [OF p] by (simp add: s)
    with final fold_Del_other [OF d] show ?thesis by (simp add: Header_Apply_def)
  qed
  have three: "ui = ui'"
    if "r_TemplateFile r \<noteq> []" "url_Parse lib (?ins (r_URL r)) = Inr u" "u_User u = Some ui'"
    for u ui'
    using buildRequest_file_user [OF that(1) assms(1) that(2,3)] assms(2) by simp
  from one two three show ?thesis by blast
qed


theorem basic_auth_and_header_set_witness:
  "\<not> isl (buildRequest example_lib (example_fields\<lparr>r_URL := ''http://user:pw@example.com/''\<rparr>)
      ''FUZZ'' ''x'') \<and>
   u_User (req_URL (projr (buildRequest example_lib
      (example_fields\<lparr>r_URL := ''http://user:pw@example.com/''\<rparr>) ''FUZZ'' ''x''))) =
     Some \<lparr>username = ''user'', password = ''pw'', passwordSet = True\<rparr> \<and>
   \<not> isl (snd (Apply example_lib (example_fields\<lparr>r_URL := ''http://user:pw@example.com/''\<rparr>)
      ''FUZZ'' ''x'')) \<and>
   req_Header (projr (snd (Apply example_lib
      (example_fields\<lparr>r_URL := ''http://user:pw@example.com/''\<rparr>) ''FUZZ'' ''x'')))
      ''Authorization'' = Some [''Basic dXNlcjpwdw=='']"
proof -
  let ?r = "example_fields\<lparr>r_URL := ''http://user:pw@example.com/''\<rparr>"
  let ?ui = "\<lparr>username = ''user'', password = ''pw'', passwordSet = True\<rparr>"
  have h1: "\<not> isl (buildRequest example_lib ?r ''FUZZ'' ''x'')" by code_simp
  then obtain req0 where b: "buildRequest example_lib ?r ''FUZZ'' ''x'' = Inr req0"
    by (cases "buildRequest example_lib ?r ''FUZZ'' ''x''") auto
  have h2: "u_User (req_URL (projr (buildRequest example_lib ?r ''FUZZ'' ''x''))) = Some ?ui"
    by code_simp
  then have u: "u_User (req_URL req0) = Some ?ui" by (simp add: b)
  have h3: "\<not> isl (snd (Apply example_lib ?r ''FUZZ'' ''x''))" by code_simp
  then obtain req where a: "snd (Apply example_lib ?r ''FUZZ'' ''x'') = Inr req"
    by (cases "snd (Apply example_lib ?r ''FUZZ'' ''x'')") auto
  have h4: "list_all (\<lambda>e. CanonicalMIMEHeaderKey (fst e) \<noteq> ''Authorization'' \<and>
              CanonicalMIMEHeaderKey (replaceTemplate example_lib (fst e) ''FUZZ'' ''x'') \<noteq> ''Authorization'')
            (h_Header (r_Header ?r))"
    by code_simp
  have h5: "list_all (\<lambda>k. CanonicalMIMEHeaderKey k \<noteq> ''Authorization'') (h_Remove (r_Header ?r))"
    by code_simp
  have h6: "''Basic '' @ basicAuth example_lib (username ?ui) (password ?ui) = ''Basic dXNlcjpwdw==''"
    by code_simp
  from basic_auth_and_header_set [OF b u a] h4 h5
  have "req_Header req ''Authorization'' =
      Some [''Basic '' @ basicAuth example_lib (username ?ui) (password ?ui)]"
    by blast
  with h6 have "req_Header req ''Authorization'' = Some [''Basic dXNlcjpwdw=='']" by simp
  with h1 h2 h3 a show ?thesis by simp
qed

text \<open>
  Claim C1 as stated fails: with the URL \<^verbatim>\<open>http://user:pw@example.com/\<close> and the directive
  \<^verbatim>\<open>Authorization: Bearer FUZZ\<close>, the request returned has the \<^verbatim>\<open>Authorization\<close> header of
  the header set, not the basic-authentication one.
\<close>

theorem header_set_replaces_basic_auth_counterexample:
  "\<not> isl (snd (Apply example_lib
      (example_fields\<lparr>r_URL := ''http://user:pw@example.com/'',
         r_Header := fst (Header_Set (NewHeader DefaultHeader) ''Authorization: Bearer FUZZ'')\<rparr>)
      ''FUZZ'' ''x'')) \<and>
   u_User (req_URL (projr (snd (Apply example_lib
      (example_fields\<lparr>r_URL := ''http://user:pw@example.com/'',
         r_Header := fst (Header_Set (NewHeader DefaultHeader) ''Authorization: Bearer FUZZ'')\<rparr>)
      ''FUZZ'' ''x'')))) = Some \<lparr>username = ''user'', password = ''pw'', passwordSet = True\<rparr> \<and>
   req_Header (projr (snd (Apply example_lib
      (example_fields\<lparr>r_URL := ''http://user:pw@example.com/'',
         r_Header := fst (Header_Set (NewHeader DefaultHeader) ''Authorization: Bearer FUZZ'')\<rparr>)
      ''FUZZ'' ''x''))) ''Authorization'' = Some [''Bearer x''] \<and>
   req_Header (projr (snd (Apply example_lib
      (example_fields\<lparr>r_URL := ''http://user:pw@example.com/'',
         r_Header := fst (Header_Set (NewHeader DefaultHeader) ''Authorization: Bearer FUZZ'')\<rparr>)
      ''FUZZ'' ''x''))) ''Authorization'' \<noteq>
     Some [''Basic '' @ basicAuth example_lib ''user'' ''pw'']"
  by code_simp

subsection \<open>Applying the header set to a target\<close>




subsection \<open>A directive whose name is not in canonical form\<close>

lemma SplitN2_colon:
  "CHR '':'' \<notin> set name \<Longrightarrow> SplitN2 (name @ CHR '':'' # value) = [name, value]"
proof -
  assume a: "CHR '':'' \<notin> set name"
  then have p: "\<forall>x\<in>set name. x \<noteq> CHR '':''" by blast
  have t: "takeWhile (\<lambda>c. c \<noteq> CHR '':'') (name @ CHR '':'' # value) = name"
    using p by (simp add: takeWhile_tail)
  have d: "dropWhile (\<lambda>c. c \<noteq> CHR '':'') (name @ CHR '':'' # value) = CHR '':'' # value"
    using p by (simp add: dropWhile_append2)
  show ?thesis by (simp add: SplitN2_def t d)
qed

lemma map_of_delete_other: "k \<noteq> n \<Longrightarrow> map_of (AList.delete n es) k = map_of es k"
  by (simp add: AList.delete_conv)

lemma Header_Set_pair:
  assumes "CHR '':'' \<notin> set name"
  shows "Header_Set h (name @ CHR '':'' # value) =
     (let hdr1 = (if headerDefaultValue h name then AList.delete name (h_Header h) else h_Header h);
          val' = (if length value > 0 \<and> hd value = CHR '' '' then tl value else value);
          old = (case map_of hdr1 name of None \<Rightarrow> [] | Some vs \<Rightarrow> vs)
      in (h\<lparr>h_Header := AList.update name (old @ [val']) hdr1\<rparr>, None))"
  by (simp add: Header_Set_def SplitN2_colon [OF assms])


lemma fold_entries_skipped:
  "hdr K \<noteq> None \<Longrightarrow>
   list_all (\<lambda>e. (CanonicalMIMEHeaderKey (fst e) \<noteq> K \<and> CanonicalMIMEHeaderKey (ins (fst e)) \<noteq> K) \<or>
                 (fst e = K \<and> headerDefaultValue h K)) es \<Longrightarrow>
   fold (Header_Apply_entry h ins) es hdr K = hdr K"
proof (induction es arbitrary: hdr)
  case Nil
  then show ?case by simp
next
  case (Cons e es)
  obtain k vs where e: "e = (k, vs)" by (cases e)
  have step: "Header_Apply_entry h ins e hdr K = hdr K"
  proof (cases "k = K \<and> headerDefaultValue h K")
    case True
    with Cons.prems(1) show ?thesis by (simp add: e Header_Apply_entry_def)
  next
    case False
    with Cons.prems(2) show ?thesis by (auto simp: e Header_Apply_entry_other)
  qed
  with Cons show ?case by simp
qed

lemma headerDefaultValue_canonical_default:
  assumes "headerDefaultValue h name"
  shows "\<exists>dv. map_of DefaultHeader (CanonicalMIMEHeaderKey name) = Some dv"
  using assms by (auto simp: headerDefaultValue_def Let_def split: option.splits)

lemma DefaultHeader_keys:
  "(k, dv) \<in> set DefaultHeader \<Longrightarrow> CanonicalMIMEHeaderKey k = k \<and> map_of DefaultHeader k = Some dv"
  by (auto simp: DefaultHeader_def canonical_names)

lemma Header_Set_noncanonical_values:
  assumes "CHR '':'' \<notin> set name" and "CanonicalMIMEHeaderKey name \<noteq> name"
    and "headerDefaultValue h name"
  shows "h_Header (fst (Header_Set h (name @ CHR '':'' # value))) =
           AList.update name [if length value > 0 \<and> hd value = CHR '' '' then tl value else value]
             (AList.delete name (h_Header h))"
    and "h_Remove (fst (Header_Set h (name @ CHR '':'' # value))) = h_Remove h"
    and "snd (Header_Set h (name @ CHR '':'' # value)) = None"
  using assms(3) by (simp_all add: Header_Set_pair [OF assms(1)] Let_def AList.delete_conv)


lemma Header_Apply_after_noncanonical_directive:
  assumes nc: "CanonicalMIMEHeaderKey name \<noteq> name"
    and d: "headerDefaultValue (NewHeader DefaultHeader) name"
    and es: "set es = set (DefaultHeader @ [(name, [v])])" "distinct (map fst es)"
    and i: "CanonicalMIMEHeaderKey (ins name) = CanonicalMIMEHeaderKey name"
      "list_all (\<lambda>e. CanonicalMIMEHeaderKey (ins (fst e)) = fst e) DefaultHeader"
  shows "snd (Header_Apply \<lparr>h_Header = es, h_Remove = []\<rparr> Map.empty ins)
           (CanonicalMIMEHeaderKey name) = Some [ins v]"
proof -
  let ?K = "CanonicalMIMEHeaderKey name"
  let ?h = "\<lparr>h_Header = es, h_Remove = []\<rparr>"
  from headerDefaultValue_canonical_default [OF d] obtain dv where
    dv: "map_of DefaultHeader ?K = Some dv" by blast
  then have Kd: "(?K, dv) \<in> set DefaultHeader" by (rule map_of_SomeD)
  have def: "CanonicalMIMEHeaderKey k = k \<and> CanonicalMIMEHeaderKey (ins k) = k \<and> k \<noteq> name"
    if "(k, w) \<in> set DefaultHeader" for k w
    using that i(2) DefaultHeader_keys [OF that] nc by (auto simp: list_all_iff)
  have "(name, [v]) \<in> set es" using es(1) by simp
  then obtain pre post where s: "es = pre @ (name, [v]) # post"
    by (auto simp: in_set_conv_decomp)
  have rest: "e \<in> set DefaultHeader" if "e \<in> set pre \<union> set post" for e
  proof -
    from that es(2) have "fst e \<noteq> name" unfolding s by force
    moreover from that es(1) have "e \<in> set DefaultHeader \<or> e = (name, [v])"
      unfolding s by auto
    ultimately show ?thesis by auto
  qed
  have hK: "headerDefaultValue ?h ?K"
  proof -
    from Kd es(1) have "(?K, dv) \<in> set es" by simp
    with es(2) have "map_of es ?K = Some dv" by (rule map_of_is_SomeI)
    moreover from def [OF Kd] have "CanonicalMIMEHeaderKey ?K = ?K" by simp
    ultimately show ?thesis using dv by (simp add: headerDefaultValue_def)
  qed
  let ?m = "fold (Header_Apply_entry ?h ins) pre Map.empty"
  have "list_all (\<lambda>e. CanonicalMIMEHeaderKey (fst e) \<noteq> name \<and>
          CanonicalMIMEHeaderKey (ins (fst e)) \<noteq> name) pre"
    unfolding list_all_iff
  proof
    fix e assume "e \<in> set pre"
    with rest have "(fst e, snd e) \<in> set DefaultHeader" by simp
    from def [OF this]
    show "CanonicalMIMEHeaderKey (fst e) \<noteq> name \<and> CanonicalMIMEHeaderKey (ins (fst e)) \<noteq> name"
      by simp
  qed
  from fold_entries_other [OF this] have m: "?m name = None" by simp
  have c: "Header_Apply_entry ?h ins (name, [v]) ?m ?K = Some [ins v]"
    using Header_Apply_entry_replaces [of name ?K ins ?m ?h "[v]"] i(1) m by simp
  have "list_all (\<lambda>e. (CanonicalMIMEHeaderKey (fst e) \<noteq> ?K \<and>
            CanonicalMIMEHeaderKey (ins (fst e)) \<noteq> ?K) \<or>
          (fst e = ?K \<and> headerDefaultValue ?h ?K)) post"
    unfolding list_all_iff
  proof
    fix e assume "e \<in> set post"
    with rest have "(fst e, snd e) \<in> set DefaultHeader" by simp
    from def [OF this] hK
    show "(CanonicalMIMEHeaderKey (fst e) \<noteq> ?K \<and> CanonicalMIMEHeaderKey (ins (fst e)) \<noteq> ?K) \<or>
          (fst e = ?K \<and> headerDefaultValue ?h ?K)"
      by auto
  qed
  from fold_entries_skipped [OF _ this, of "Header_Apply_entry ?h ins (name, [v]) ?m"] c
  have "fold (Header_Apply_entry ?h ins) es Map.empty ?K = Some [ins v]"
    by (simp add: s)
  then show ?thesis by (simp add: Header_Apply_def)
qed

text \<open>
  Claim C10, as amended. For a directive \<^verbatim>\<open>name:value\<close> whose name is not in canonical
  form while the entry of its canonical form is still at its default, \<^verbatim>\<open>Header.Set\<close>
  returns no error, leaves the entry of the canonical name as it is, and stores the new
  value (less one leading space) under the literal name. When this is done on a fresh
  header set and the header set is then applied to an empty target, in whatever order
  the stored names are visited, the target gets under the canonical name the new value
  only: the default value is not emitted.
\<close>

theorem directive_with_noncanonical_name:
  assumes "CHR '':'' \<notin> set name" and "CanonicalMIMEHeaderKey name \<noteq> name"
    and "headerDefaultValue h name"
  shows "(let h' = fst (Header_Set h (name @ CHR '':'' # value));
              v = (if length value > 0 \<and> hd value = CHR '' '' then tl value else value)
          in snd (Header_Set h (name @ CHR '':'' # value)) = None \<and>
             map_of (h_Header h') (CanonicalMIMEHeaderKey name) =
               map_of (h_Header h) (CanonicalMIMEHeaderKey name) \<and>
             map_of (h_Header h') name = Some [v] \<and>
             (h = NewHeader DefaultHeader \<longrightarrow>
                (\<forall>es ins. set es = set (h_Header h') \<and> distinct (map fst es) \<and>
                    CanonicalMIMEHeaderKey (ins name) = CanonicalMIMEHeaderKey name \<and>
                    list_all (\<lambda>e. CanonicalMIMEHeaderKey (ins (fst e)) = fst e) DefaultHeader \<longrightarrow>
                  snd (Header_Apply (h'\<lparr>h_Header := es\<rparr>) Map.empty ins)
                    (CanonicalMIMEHeaderKey name) = Some [ins v])))"
proof -
  let ?s = "name @ CHR '':'' # value"
  let ?h' = "fst (Header_Set h ?s)"
  let ?v = "if length value > 0 \<and> hd value = CHR '' '' then tl value else value"
  let ?K = "CanonicalMIMEHeaderKey name"
  note set = Header_Set_noncanonical_values [OF assms, of "value"]
  have a: "snd (Header_Set h ?s) = None" by (rule set(3))
  have b: "map_of (h_Header ?h') ?K = map_of (h_Header h) ?K"
    using assms(2) by (simp add: set(1) AList.update_conv AList.delete_conv)
  have c: "map_of (h_Header ?h') name = Some [?v]"
    by (simp add: set(1) AList.update_conv)
  have d: "snd (Header_Apply (?h'\<lparr>h_Header := es\<rparr>) Map.empty ins) ?K = Some [ins ?v]"
    if h: "h = NewHeader DefaultHeader"
      and es: "set es = set (h_Header ?h')" "distinct (map fst es)"
      and i: "CanonicalMIMEHeaderKey (ins name) = ?K"
        "list_all (\<lambda>e. CanonicalMIMEHeaderKey (ins (fst e)) = fst e) DefaultHeader"
    for es ins
  proof -
    have n: "name \<noteq> ''Accept''" "name \<noteq> ''User-Agent''"
      using assms(2) canonical_names by auto
    have "AList.update name [?v] (AList.delete name (h_Header h)) =
        DefaultHeader @ [(name, [?v])]"
      using n by (simp add: h NewHeader_def DefaultHeader_def)
    with set(1) have "h_Header ?h' = DefaultHeader @ [(name, [?v])]" by simp
    with es(1) have e1: "set es = set (DefaultHeader @ [(name, [?v])])" by simp
    have r: "?h'\<lparr>h_Header := es\<rparr> = \<lparr>h_Header = es, h_Remove = []\<rparr>"
      using set(2) by (simp add: h NewHeader_def)
    from Header_Apply_after_noncanonical_directive [OF assms(2) assms(3) [unfolded h] e1 es(2) i]
    show ?thesis by (simp only: r)
  qed
  from a b c d show ?thesis unfolding Let_def by blast
qed

theorem directive_with_noncanonical_name_witness:
  "CHR '':'' \<notin> set ''accept'' \<and>
   CanonicalMIMEHeaderKey ''accept'' \<noteq> ''accept'' \<and>
   headerDefaultValue (NewHeader DefaultHeader) ''accept'' \<and>
   map_of (h_Header (fst (Header_Set (NewHeader DefaultHeader) ''accept: text/plain''))) ''Accept''
     = Some [''*/*''] \<and>
   map_of (h_Header (fst (Header_Set (NewHeader DefaultHeader) ''accept: text/plain''))) ''accept''
     = Some [''text/plain''] \<and>
   snd (Header_Apply ((fst (Header_Set (NewHeader DefaultHeader) ''accept: text/plain''))
          \<lparr>h_Header := [(''accept'', [''text/plain'']), (''User-Agent'', [''monsoon'']),
                        (''Accept'', [''*/*''])]\<rparr>)
        Map.empty (\<lambda>s. s)) ''Accept'' = Some [''text/plain'']"
proof -
  let ?h = "NewHeader DefaultHeader"
  let ?es = "[(''accept'', [''text/plain'']), (''User-Agent'', [''monsoon'']),
              (''Accept'', [''*/*''])]"
  have s: "''accept'' @ CHR '':'' # '' text/plain'' = ''accept: text/plain''" by simp
  have v: "(if length '' text/plain'' > 0 \<and> hd '' text/plain'' = CHR '' ''
            then tl '' text/plain'' else '' text/plain'') = ''text/plain''" by simp
  have h1: "CHR '':'' \<notin> set ''accept''" by simp
  have h2: "CanonicalMIMEHeaderKey ''accept'' \<noteq> ''accept''" by code_simp
  have h3: "headerDefaultValue ?h ''accept''" by code_simp
  have h4: "set ?es = set (h_Header (fst (Header_Set ?h ''accept: text/plain'')))" by code_simp
  have h5: "distinct (map fst ?es)" by code_simp
  have k: "CanonicalMIMEHeaderKey ''accept'' = ''Accept''" by code_simp
  have h7: "list_all (\<lambda>e. CanonicalMIMEHeaderKey (fst e) = fst e) DefaultHeader" by code_simp
  have d: "map_of (h_Header ?h) ''Accept'' = Some [''*/*'']" by code_simp
  note T = directive_with_noncanonical_name [OF h1 h2 h3, of "'' text/plain''",
      unfolded Let_def s v k d]
  note T2 = T [THEN conjunct2, THEN conjunct1]
  note T3 = T [THEN conjunct2, THEN conjunct2, THEN conjunct1]
  note T4 = T [THEN conjunct2, THEN conjunct2, THEN conjunct2, THEN mp, OF refl]
  have T5: "snd (Header_Apply ((fst (Header_Set ?h ''accept: text/plain''))\<lparr>h_Header := ?es\<rparr>)
        Map.empty (\<lambda>s. s)) ''Accept'' = Some [''text/plain'']"
    by (rule T4 [THEN spec [where x = ?es], THEN spec [where x = "\<lambda>s. s"], THEN mp])
      (intro conjI h4 h5 k h7)
  from h1 h2 h3 T2 T3 T5 show ?thesis by (intro conjI)
qed

text \<open>
  Claim C10 as stated fails in its last part: after the directive \<^verbatim>\<open>accept: text/plain\<close>
  on a fresh header set, both \<^verbatim>\<open>Accept\<close> (default) and \<^verbatim>\<open>accept\<close> are stored, and applying
  the header set to an empty target gives \<^verbatim>\<open>Accept: text/plain\<close> alone, without the
  default \<^verbatim>\<open>*/*\<close>.
\<close>

theorem default_not_emitted_counterexample:
  "map_of (h_Header (fst (Header_Set (NewHeader DefaultHeader) ''accept: text/plain''))) ''Accept''
     = Some [''*/*''] \<and>
   map_of (h_Header (fst (Header_Set (NewHeader DefaultHeader) ''accept: text/plain''))) ''accept''
     = Some [''text/plain''] \<and>
   snd (Header_Apply (fst (Header_Set (NewHeader DefaultHeader) ''accept: text/plain''))
     Map.empty (\<lambda>s. s)) ''Accept'' = Some [''text/plain''] \<and>
   ''*/*'' \<notin> set (the (snd (Header_Apply
     (fst (Header_Set (NewHeader DefaultHeader) ''accept: text/plain'')) Map.empty (\<lambda>s. s))
     ''Accept''))"
  by code_simp

end
